theory Spec2Isabelle
  imports Main "HOL-Library.Product_Lexorder"
begin

section \<open>Data model\<close>

text \<open>
  The service keeps two tables, \<open>properties\<close> and \<open>logs\<close>, in one SQLite file and
  reaches them through SQLAlchemy sessions. A table is modelled as the list of its rows
  in rowid order, which is the order in which an unordered \<open>SELECT\<close> scans it.

  Naive \<open>datetime\<close> values are pairs of a date \<open>(year, month, day)\<close> and a time of day
  \<open>(hour, minute, second, microsecond)\<close>; their order is the lexicographic one, which is
  how Python compares naive datetimes and how the stored ISO text compares in SQLite.
\<close>

type_synonym pydate = "nat \<times> nat \<times> nat"
type_synonym pytime = "nat \<times> nat \<times> nat \<times> nat"
type_synonym datetime = "pydate \<times> pytime"

definition time_min :: pytime where
  "time_min = (0, 0, 0, 0)"

definition time_max :: pytime where
  "time_max = (23, 59, 59, 999999)"

text \<open>\<open>datetime.combine(d, t)\<close>: the date of \<open>d\<close> (its own time of day is dropped) with \<open>t\<close>.\<close>

definition combine :: "datetime \<Rightarrow> pytime \<Rightarrow> datetime" where
  "combine d t = (fst d, t)"

text \<open>\<open>d.time()\<close>\<close>

definition time_of :: "datetime \<Rightarrow> pytime" where
  "time_of d = snd d"

text \<open>
  The two mapped classes. The column \<open>id\<close> of either table is written \<open>id_p\<close> and
  \<open>id_l\<close>, the column \<open>notes\<close> is written \<open>notes_p\<close>, and the local \<open>property_\<close>
  of the handlers is written \<open>property'\<close>. In \<open>src/server.py\<close> the same columns are
  called \<open>PropertyId\<close>, \<open>Number\<close>, \<open>Notes\<close> and \<open>PropertyId\<close>, \<open>EventId\<close>,
  \<open>Timestamp\<close>, \<open>Description\<close>.
\<close>

record Property =
  id_p :: int
  number :: string
  notes_p :: string

record Log =
  propertyId :: int
  id_l :: int
  timestamp :: datetime
  description :: string

record database =
  properties :: "Property list"
  logs :: "Log list"

text \<open>\<open>HTTPException(status_code=..., detail=...)\<close>; 404 is NotFound, 400 is BadRequest.\<close>

datatype HTTPException = HTTPException (status_code: nat) (detail: string)

abbreviation NotFound :: "string \<Rightarrow> HTTPException" where
  "NotFound m \<equiv> HTTPException 404 m"

abbreviation BadRequest :: "string \<Rightarrow> HTTPException" where
  "BadRequest m \<equiv> HTTPException 400 m"

section \<open>The store\<close>

text \<open>
  An \<open>Integer\<close> primary key of SQLite without the \<open>AUTOINCREMENT\<close> keyword (SQLAlchemy
  emits it only under \<open>sqlite_autoincrement\<close>) is the rowid: an insert takes 1 in an empty
  table and the largest rowid plus one otherwise.
\<close>

definition next_rowid :: "int list \<Rightarrow> int" where
  "next_rowid ids = (case ids of [] \<Rightarrow> 1 | i # js \<Rightarrow> fold max js i + 1)"

text \<open>
  \<open>db.delete(obj)\<close> followed by \<open>db.commit()\<close> issues \<open>DELETE ... WHERE id = obj.id\<close>.
  No \<open>relationship\<close> is declared and SQLite does not enforce foreign keys unless
  \<open>PRAGMA foreign_keys\<close> is switched on, which the service never does: a delete touches
  its own table only and an insert into \<open>logs\<close> is not checked against \<open>properties\<close>.
\<close>

definition delete_Property :: "Property \<Rightarrow> database \<Rightarrow> database" where
  "delete_Property obj db =
     db\<lparr>properties := filter (\<lambda>p. id_p p \<noteq> id_p obj) (properties db)\<rparr>"

definition delete_Log :: "Log \<Rightarrow> database \<Rightarrow> database" where
  "delete_Log obj db = db\<lparr>logs := filter (\<lambda>l. id_l l \<noteq> id_l obj) (logs db)\<rparr>"

section \<open>Date and time input\<close>

text \<open>
  \<open>datetime.fromisoformat\<close> belongs to Python's standard library, not to the service. The
  handlers take it as the parameter \<open>prs\<close>: \<open>None\<close> stands for its \<open>ValueError\<close>.
\<close>

type_synonym parser = "string \<Rightarrow> datetime option"

text \<open>
  A \<open>datetime\<close> object is always truthy, so the branch \<open>if parsedDateTime\<close> is the
  branch of a successful parse.
\<close>

definition validateDateTime :: "parser \<Rightarrow> string \<Rightarrow> pytime \<Rightarrow> datetime option" where
  "validateDateTime prs dateTimeString defaultTime =
     (case prs dateTimeString of
        Some parsedDateTime \<Rightarrow>
          (let parsedTime = time_of parsedDateTime in
           Some (if parsedTime = time_min then combine parsedDateTime defaultTime
                 else parsedDateTime))
      | None \<Rightarrow> None)"

subsection \<open>A reference parser\<close>

text \<open>
  An executable instance of the parameter, for evaluating the handlers on concrete
  requests. It reads, as the library of Python 3.11 does,

    \<^item> a date \<open>YYYY-MM-DD\<close> or \<open>YYYYMMDD\<close>, alone or followed by any single character
      and a time;
    \<^item> a time \<open>HH\<close>, \<open>HH:MM\<close>, \<open>HH:MM:SS\<close> or \<open>HH:MM:SS.f...\<close> (one digit or more,
      the first six kept);
    \<^item> after the time, nothing, \<open>Z\<close>, or an offset \<open>+HH:MM\<close> or \<open>-HH:MM\<close>.

  With an offset the library returns an aware \<open>datetime\<close>; the \<open>DateTime\<close> column and the
  bound values of a query keep the fields year to microsecond only, so the instance
  returns those and drops the offset. ISO week dates, times without colons, a comma
  before the fraction and offsets with seconds, which the library reads too, are not
  covered: the instance returns \<open>None\<close> for them. So it accepts far more than the two
  forms the messages of the handlers name, and less than the library. No general theorem
  below depends on this instance.
\<close>

definition digit :: "char \<Rightarrow> nat option" where
  "digit c = (let n = (of_char c :: nat) in if 48 \<le> n \<and> n \<le> 57 then Some (n - 48) else None)"

fun digits_acc :: "nat \<Rightarrow> string \<Rightarrow> nat option" where
  "digits_acc acc [] = Some acc"
| "digits_acc acc (c # cs) =
     (case digit c of None \<Rightarrow> None | Some d \<Rightarrow> digits_acc (10 * acc + d) cs)"

definition digits :: "string \<Rightarrow> nat option" where
  "digits s = (if s = [] then None else digits_acc 0 s)"

definition is_leap :: "nat \<Rightarrow> bool" where
  "is_leap y = (y mod 4 = 0 \<and> (y mod 100 \<noteq> 0 \<or> y mod 400 = 0))"

definition days_in_month :: "nat \<Rightarrow> nat \<Rightarrow> nat" where
  "days_in_month y m =
     (if m = 2 then (if is_leap y then 29 else 28)
      else if m = 4 \<or> m = 6 \<or> m = 9 \<or> m = 11 then 30 else 31)"

definition parse_date :: "string \<Rightarrow> pydate option" where
  "parse_date s =
     (case (if length s = 10 \<and> s ! 4 = CHR ''-'' \<and> s ! 7 = CHR ''-''
            then (digits (take 4 s), digits (take 2 (drop 5 s)), digits (drop 8 s))
            else if length s = 8
            then (digits (take 4 s), digits (take 2 (drop 4 s)), digits (drop 6 s))
            else (None, None, None)) of
        (Some y, Some m, Some d) \<Rightarrow>
          (if 1 \<le> y \<and> 1 \<le> m \<and> m \<le> 12 \<and> 1 \<le> d \<and> d \<le> days_in_month y m
           then Some (y, m, d) else None)
      | _ \<Rightarrow> None)"

text \<open>The fraction of a second: digits only, the first six of them read as microseconds.\<close>

definition microseconds :: "string \<Rightarrow> nat option" where
  "microseconds f =
     (case digits f of None \<Rightarrow> None | Some _ \<Rightarrow> digits (take 6 (f @ ''00000'')))"

definition parse_clock :: "string \<Rightarrow> pytime option" where
  "parse_clock s =
     (let hh = digits (take 2 s);
          mm = (if length s = 2 then Some 0
                else if s ! 2 = CHR '':'' then digits (take 2 (drop 3 s)) else None);
          ss = (if length s \<le> 5 then Some 0
                else if s ! 5 = CHR '':'' then digits (take 2 (drop 6 s)) else None);
          us = (if length s \<le> 8 then Some 0
                else if s ! 8 = CHR ''.'' then microseconds (drop 9 s) else None)
      in if length s = 2 \<or> length s = 5 \<or> length s = 8 \<or> 10 \<le> length s then
           (case (hh, mm, ss, us) of
              (Some h, Some mi, Some sec, Some u) \<Rightarrow>
                (if h \<le> 23 \<and> mi \<le> 59 \<and> sec \<le> 59 then Some (h, mi, sec, u) else None)
            | _ \<Rightarrow> None)
         else None)"

definition index_of :: "char \<Rightarrow> string \<Rightarrow> nat option" where
  "index_of c s = (if c \<in> set s then Some (length (takeWhile (\<lambda>x. x \<noteq> c) s)) else None)"

definition valid_offset :: "string \<Rightarrow> bool" where
  "valid_offset z =
     (length z = 5 \<and> z ! 2 = CHR '':'' \<and>
      (case (digits (take 2 z), digits (drop 3 z)) of
         (Some h, Some m) \<Rightarrow> h \<le> 23 \<and> m \<le> 59
       | _ \<Rightarrow> False))"

text \<open>
  The offset starts at the first \<open>-\<close>, else at the first \<open>+\<close>, else at the first \<open>Z\<close> of
  the text after the separator, as the library looks for it.
\<close>

definition parse_time :: "string \<Rightarrow> pytime option" where
  "parse_time s =
     (case (case index_of (CHR ''-'') s of
              Some i \<Rightarrow> Some i
            | None \<Rightarrow> (case index_of (CHR ''+'') s of
                         Some i \<Rightarrow> Some i
                       | None \<Rightarrow> index_of (CHR ''Z'') s)) of
        None \<Rightarrow> parse_clock s
      | Some i \<Rightarrow>
          if (s ! i = CHR ''Z'' \<and> Suc i = length s) \<or> valid_offset (drop (Suc i) s)
          then parse_clock (take i s) else None)"

definition fromisoformat :: parser where
  "fromisoformat s =
     (let n = (if 4 < length s \<and> s ! 4 = CHR ''-'' then 10 else 8) in
      if length s < n then None
      else if length s = n then
        (case parse_date s of Some d \<Rightarrow> Some (d, time_min) | None \<Rightarrow> None)
      else
        (case (parse_date (take n s), parse_time (drop (Suc n) s)) of
           (Some d, Some t) \<Rightarrow> Some (d, t)
         | _ \<Rightarrow> None))"

section \<open>Property endpoints (src/server/server.py)\<close>

definition create_property :: "database \<Rightarrow> string \<Rightarrow> string \<Rightarrow> Property \<times> database" where
  "create_property db number' notes' =
     (let property' = \<lparr>id_p = next_rowid (map id_p (properties db)),
                       number = number', notes_p = notes'\<rparr>
      in (property', db\<lparr>properties := properties db @ [property']\<rparr>))"

definition get_all_properties :: "database \<Rightarrow> Property list" where
  "get_all_properties db =
     map (\<lambda>p. \<lparr>id_p = id_p p, number = number p, notes_p = notes_p p\<rparr>) (properties db)"

definition get_property :: "database \<Rightarrow> int \<Rightarrow> HTTPException + Property" where
  "get_property db property_id =
     (case find (\<lambda>p. id_p p = property_id) (properties db) of
        None \<Rightarrow> Inl (NotFound ''Property not found.'')
      | Some property' \<Rightarrow> Inr property')"

definition update_property ::
  "database \<Rightarrow> int \<Rightarrow> string \<Rightarrow> string \<Rightarrow> HTTPException + Property \<times> database" where
  "update_property db property_id number' notes' =
     (case find (\<lambda>p. id_p p = property_id) (properties db) of
        None \<Rightarrow> Inl (NotFound ''Property not found.'')
      | Some property' \<Rightarrow>
          (let updated = property'\<lparr>number := number', notes_p := notes'\<rparr>
           in Inr (updated,
                   db\<lparr>properties :=
                        map (\<lambda>p. if id_p p = id_p property' then p\<lparr>number := number', notes_p := notes'\<rparr>
                                 else p) (properties db)\<rparr>)))"

text \<open>
  \<open>delete_property\<close>: the property is looked up, every log of the property is deleted in
  the loop, then the property, and one \<open>commit\<close> ends the session: the state returned is
  the one after all of it.
\<close>

definition delete_property :: "database \<Rightarrow> int \<Rightarrow> HTTPException + string \<times> database" where
  "delete_property db property_id =
     (case find (\<lambda>p. id_p p = property_id) (properties db) of
        None \<Rightarrow> Inl (NotFound ''Property not found.'')
      | Some property' \<Rightarrow>
          (let logs' = filter (\<lambda>l. propertyId l = property_id) (logs db);
               db1 = fold delete_Log logs' db;
               db2 = delete_Property property' db1
           in Inr (''Property and associated logs deleted.'', db2)))"

section \<open>Event endpoints (src/server/server.py)\<close>

text \<open>
  \<open>if start_date:\<close> is Python truthiness: \<open>None\<close> and the empty string both skip the
  block. The query is filtered step by step and read by \<open>query.all()\<close>; both range bounds
  are applied with \<open>>=\<close>, as the source writes them.
\<close>

definition get_property_events ::
  "parser \<Rightarrow> database \<Rightarrow> int \<Rightarrow> string option \<Rightarrow> string option \<Rightarrow> HTTPException + Log list" where
  "get_property_events prs db property_id start_date end_date =
     (let query = filter (\<lambda>l. propertyId l = property_id) (logs db) in
      case (case start_date of
              None \<Rightarrow> Inr query
            | Some s \<Rightarrow>
                if s = [] then Inr query
                else (case validateDateTime prs s time_min of
                        Some parsed_start \<Rightarrow>
                          Inr (filter (\<lambda>l. timestamp l \<ge> parsed_start) query)
                      | None \<Rightarrow>
                          Inl (BadRequest
                            ''Unable to parse start_date. Use YYYY-MM-DD or YYYY-MM-DDTHH:MM:SS''))) of
        Inl e \<Rightarrow> Inl e
      | Inr query1 \<Rightarrow>
         (case (case end_date of
                  None \<Rightarrow> Inr query1
                | Some s \<Rightarrow>
                    if s = [] then Inr query1
                    else (case validateDateTime prs s time_max of
                            Some parsed_end \<Rightarrow>
                              Inr (filter (\<lambda>l. timestamp l \<ge> parsed_end) query1)
                          | None \<Rightarrow>
                              Inl (BadRequest
                                ''Unable to parse end_date. Use YYYY-MM-DD or YYYY-MM-DDTHH:MM:SS''))) of
            Inl e \<Rightarrow> Inl e
          | Inr logs' \<Rightarrow>
              if logs' = [] then
                Inl (NotFound
                  (if (start_date \<noteq> None \<and> start_date \<noteq> Some [])
                      \<or> (end_date \<noteq> None \<and> end_date \<noteq> Some [])
                   then ''No events found for this property in the given range.''
                   else ''No events found for this property.''))
              else Inr (map (\<lambda>log. \<lparr>propertyId = propertyId log, id_l = id_l log,
                                     timestamp = timestamp log,
                                     description = description log\<rparr>) logs')))"

text \<open>
  \<open>create_event\<close>: \<open>now\<close> is the reading of \<open>datetime.now()\<close>. Nothing looks the property
  up before the insert.
\<close>

definition create_event ::
  "parser \<Rightarrow> datetime \<Rightarrow> database \<Rightarrow> int \<Rightarrow> string \<Rightarrow> string option
     \<Rightarrow> HTTPException + Log \<times> database" where
  "create_event prs now db property_id description' timestamp' =
     (case (case timestamp' of
              None \<Rightarrow> Inr now
            | Some s \<Rightarrow>
                if s = [] then Inr now
                else (case validateDateTime prs s time_min of
                        None \<Rightarrow>
                          Inl (BadRequest
                            ''Unable to parse timestamp. Use YYYY-MM-DD or YYYY-MM-DDTHH:MM:SS'')
                      | Some parsed_timestamp \<Rightarrow> Inr parsed_timestamp)) of
        Inl e \<Rightarrow> Inl e
      | Inr parsed_timestamp \<Rightarrow>
          (let log = \<lparr>propertyId = property_id, id_l = next_rowid (map id_l (logs db)),
                      timestamp = parsed_timestamp, description = description'\<rparr>
           in Inr (log, db\<lparr>logs := logs db @ [log]\<rparr>)))"

text \<open>
  \<open>get_event\<close> filters with \<open>Log.propertyId == property_id and Log.id == event_id\<close>.
  Python's \<open>and\<close> first takes the truth value of its left operand; for a SQLAlchemy
  \<open>==\<close> expression that is whether both sides are the same object, which a column and a
  bound value never are. So \<open>and\<close> returns its left operand and the filter that reaches
  the store is \<open>Log.propertyId == property_id\<close> alone; \<open>event_id\<close> is not used.
\<close>

definition get_event :: "database \<Rightarrow> int \<Rightarrow> int \<Rightarrow> HTTPException + Log" where
  "get_event db property_id event_id =
     (case find (\<lambda>l. propertyId l = property_id) (logs db) of
        None \<Rightarrow> Inl (NotFound ''Log not found.'')
      | Some log \<Rightarrow> Inr log)"

text \<open>
  \<open>delete_event\<close> has the same filter, and queries \<open>Property\<close>: the statement is
  \<open>SELECT properties.* FROM properties, logs WHERE logs.propertyId = ? LIMIT 1\<close>, the
  first row of the product of both tables. Whichever table is scanned in the outer loop,
  that row holds the first property of the table, and it is there as soon as the given
  property has a log. The object found, a property, is then deleted.
\<close>

definition delete_event :: "database \<Rightarrow> int \<Rightarrow> int \<Rightarrow> HTTPException + string \<times> database" where
  "delete_event db property_id event_id =
     (case concat (map (\<lambda>p. map (\<lambda>l. p) (filter (\<lambda>l. propertyId l = property_id) (logs db)))
                       (properties db)) of
        [] \<Rightarrow> Inl (NotFound ''Event not found'')
      | log # _ \<Rightarrow> Inr (''Event deleted'', delete_Property log db))"

section \<open>Event endpoints (src/server.py)\<close>

text \<open>
  The second copy of the service has no range filter and no caller-supplied timestamp:
  the column default \<open>func.now()\<close> stamps the row, and \<open>now\<close> is its reading.
  \<open>get_log\<close> and \<open>delete_event\<close> are written as in the first copy.
\<close>

definition get_events_for_property :: "database \<Rightarrow> int \<Rightarrow> HTTPException + Log list" where
  "get_events_for_property db property_id =
     (let logs' = filter (\<lambda>l. propertyId l = property_id) (logs db) in
      if logs' = [] then Inl (NotFound ''No events found for this property.'')
      else Inr (map (\<lambda>log. \<lparr>propertyId = propertyId log, id_l = id_l log,
                             timestamp = timestamp log,
                             description = description log\<rparr>) logs'))"

definition create_event_top :: "datetime \<Rightarrow> database \<Rightarrow> int \<Rightarrow> string \<Rightarrow> Log \<times> database" where
  "create_event_top now db property_id description' =
     (let log = \<lparr>propertyId = property_id, id_l = next_rowid (map id_l (logs db)),
                 timestamp = now, description = description'\<rparr>
      in (log, db\<lparr>logs := logs db @ [log]\<rparr>))"

definition get_log :: "database \<Rightarrow> int \<Rightarrow> int \<Rightarrow> HTTPException + Log" where
  "get_log db property_id event_id =
     (case find (\<lambda>l. propertyId l = property_id) (logs db) of
        None \<Rightarrow> Inl (NotFound ''Log not found.'')
      | Some log \<Rightarrow> Inr log)"

definition delete_event_top :: "database \<Rightarrow> int \<Rightarrow> int \<Rightarrow> HTTPException + string \<times> database" where
  "delete_event_top db property_id event_id =
     (case concat (map (\<lambda>p. map (\<lambda>l. p) (filter (\<lambda>l. propertyId l = property_id) (logs db)))
                       (properties db)) of
        [] \<Rightarrow> Inl (NotFound ''Event not found'')
      | log # _ \<Rightarrow> Inr (''Event deleted'', delete_Property log db))"

section \<open>Notions used by the statements\<close>

text \<open>
  The bound a listing request puts on one end of its range: none when the parameter is
  absent or empty, the validated instant otherwise, or a rejected string.
\<close>

datatype bound = NoBound | Bound datetime | Rejected

definition range_bound :: "parser \<Rightarrow> string option \<Rightarrow> pytime \<Rightarrow> bound" where
  "range_bound prs d t =
     (case d of
        None \<Rightarrow> NoBound
      | Some s \<Rightarrow>
          if s = [] then NoBound
          else (case validateDateTime prs s t of None \<Rightarrow> Rejected | Some x \<Rightarrow> Bound x))"

text \<open>A log passes a bound when its timestamp is not before it (the source's \<open>>=\<close>).\<close>

fun passes :: "bound \<Rightarrow> Log \<Rightarrow> bool" where
  "passes NoBound l = True"
| "passes (Bound x) l = (x \<le> timestamp l)"
| "passes Rejected l = False"

text \<open>
  The two forms that the claims and the messages of the handlers name, as shapes:
  \<open>YYYY-MM-DD\<close> and \<open>YYYY-MM-DDTHH:MM:SS\<close>, every letter a digit.
\<close>

definition date_only_form :: "string \<Rightarrow> bool" where
  "date_only_form s =
     (length s = 10 \<and> s ! 4 = CHR ''-'' \<and> s ! 7 = CHR ''-''
      \<and> digits (take 4 s) \<noteq> None \<and> digits (take 2 (drop 5 s)) \<noteq> None
      \<and> digits (drop 8 s) \<noteq> None)"

definition full_datetime_form :: "string \<Rightarrow> bool" where
  "full_datetime_form s =
     (length s = 19 \<and> date_only_form (take 10 s) \<and> s ! 10 = CHR ''T''
      \<and> s ! 13 = CHR '':'' \<and> s ! 16 = CHR '':''
      \<and> digits (take 2 (drop 11 s)) \<noteq> None \<and> digits (take 2 (drop 14 s)) \<noteq> None
      \<and> digits (drop 17 s) \<noteq> None)"

subsection \<open>Sample states\<close>

definition sample_now :: datetime where
  "sample_now = ((2025, 6, 15), (12, 30, 0, 0))"

definition db_empty :: database where
  "db_empty = \<lparr>properties = [], logs = []\<rparr>"

definition unit_101 :: Property where
  "unit_101 = \<lparr>id_p = 1, number = ''101'', notes_p = ''corner unit''\<rparr>"

definition unit_102 :: Property where
  "unit_102 = \<lparr>id_p = 2, number = ''102'', notes_p = ''top floor''\<rparr>"

definition inspection :: Log where
  "inspection = \<lparr>propertyId = 1, id_l = 1, timestamp = ((2024, 3, 1), (0, 0, 0, 0)),
                  description = ''inspection''\<rparr>"

definition repair :: Log where
  "repair = \<lparr>propertyId = 1, id_l = 2, timestamp = ((2024, 3, 9), (14, 5, 0, 0)),
              description = ''repair''\<rparr>"

definition viewing :: Log where
  "viewing = \<lparr>propertyId = 2, id_l = 3, timestamp = ((2024, 1, 1), (9, 0, 0, 0)),
               description = ''viewing''\<rparr>"

text \<open>One property with one event: the state of the scenario of the specification.\<close>

definition db_one :: database where
  "db_one = \<lparr>properties = [unit_101], logs = [inspection]\<rparr>"

text \<open>Two properties, the first with two events, the second with one.\<close>

definition db_two :: database where
  "db_two = \<lparr>properties = [unit_101, unit_102], logs = [inspection, repair, viewing]\<rparr>"

section \<open>The store: fresh ids and deletion\<close>

lemma fold_max_ge: "(a::int) \<le> fold max xs a"
  by (induction xs arbitrary: a) (auto intro: order_trans[OF max.cobounded2])

lemma fold_max_mem: "x \<in> set xs \<Longrightarrow> (x::int) \<le> fold max xs a"
proof (induction xs arbitrary: a)
  case Nil
  then show ?case by simp
next
  case (Cons y ys)
  show ?case
  proof (cases "x = y")
    case True
    have "y \<le> max y a" by simp
    also have "\<dots> \<le> fold max ys (max y a)" by (rule fold_max_ge)
    finally show ?thesis using True by simp
  next
    case False
    with Cons show ?thesis by simp
  qed
qed

lemma next_rowid_fresh: "i \<in> set ids \<Longrightarrow> i < next_rowid ids"
proof (cases ids)
  case Nil
  assume "i \<in> set ids"
  with Nil show ?thesis by simp
next
  case (Cons j js)
  assume "i \<in> set ids"
  with Cons have "i = j \<or> i \<in> set js" by simp
  then have "i \<le> fold max js j"
    using fold_max_ge[of j js] fold_max_mem[of i js j] by auto
  with Cons show ?thesis by (simp add: next_rowid_def)
qed

lemma find_fresh_id:
  "find (\<lambda>p. id_p p = next_rowid (map id_p ps)) ps = None"
proof -
  have "\<not> (\<exists>p. p \<in> set ps \<and> id_p p = next_rowid (map id_p ps))"
  proof
    assume "\<exists>p. p \<in> set ps \<and> id_p p = next_rowid (map id_p ps)"
    then obtain p where p: "p \<in> set ps" "id_p p = next_rowid (map id_p ps)" by blast
    from p(1) have "id_p p \<in> set (map id_p ps)" by simp
    then have "id_p p < next_rowid (map id_p ps)" by (rule next_rowid_fresh)
    with p(2) show False by simp
  qed
  then show ?thesis by (simp add: find_None_iff)
qed

lemma find_append:
  "find P (xs @ ys) = (case find P xs of None \<Rightarrow> find P ys | Some x \<Rightarrow> Some x)"
  by (induction xs) auto

lemma logs_fold_delete_Log:
  "logs (fold delete_Log ls db) = filter (\<lambda>l. id_l l \<notin> id_l ` set ls) (logs db)"
proof (induction ls arbitrary: db)
  case Nil
  then show ?case by simp
next
  case (Cons x xs)
  have "logs (fold delete_Log (x # xs) db) = logs (fold delete_Log xs (delete_Log x db))"
    by simp
  also have "\<dots> = filter (\<lambda>l. id_l l \<notin> id_l ` set xs) (logs (delete_Log x db))"
    by (rule Cons)
  also have "\<dots> = filter (\<lambda>l. id_l l \<notin> id_l ` set (x # xs)) (logs db)"
    by (simp add: delete_Log_def)
  finally show ?case .
qed

lemma properties_fold_delete_Log:
  "properties (fold delete_Log ls db) = properties db"
proof (induction ls arbitrary: db)
  case Nil
  then show ?case by simp
next
  case (Cons x xs)
  have "properties (fold delete_Log (x # xs) db) = properties (fold delete_Log xs (delete_Log x db))"
    by simp
  also have "\<dots> = properties (delete_Log x db)" by (rule Cons)
  also have "\<dots> = properties db" by (simp add: delete_Log_def)
  finally show ?case .
qed

lemma delete_property_Inr:
  assumes "delete_property db pid = Inr (m, db')"
  shows "properties db' = filter (\<lambda>p. id_p p \<noteq> pid) (properties db)"
    and "logs db' = filter (\<lambda>l. id_l l \<notin> id_l ` {l \<in> set (logs db). propertyId l = pid}) (logs db)"
proof -
  from assms obtain p where p: "find (\<lambda>p. id_p p = pid) (properties db) = Some p"
    by (auto simp: delete_property_def split: option.splits)
  then have idp: "id_p p = pid" by (auto simp: find_Some_iff)
  from assms p have db': "db' = delete_Property p (fold delete_Log (filter (\<lambda>l. propertyId l = pid) (logs db)) db)"
    by (simp add: delete_property_def Let_def)
  show "properties db' = filter (\<lambda>p. id_p p \<noteq> pid) (properties db)"
    by (simp add: db' delete_Property_def properties_fold_delete_Log idp)
  show "logs db' = filter (\<lambda>l. id_l l \<notin> id_l ` {l \<in> set (logs db). propertyId l = pid}) (logs db)"
    by (simp add: db' delete_Property_def logs_fold_delete_Log)
qed

lemma delete_property_no_logs:
  assumes "delete_property db pid = Inr (m, db')"
  shows "filter (\<lambda>l. propertyId l = pid) (logs db') = []"
  by (auto simp: delete_property_Inr(2)[OF assms] filter_empty_conv)

section \<open>Properties\<close>

text \<open>
  C9. For all \<open>number\<close> and \<open>notes\<close>, creating a property and fetching it by the id
  that the creation returned yields the created record, whose number and notes are the
  values supplied. (Every pair of strings is valid input: the handler checks nothing.)
\<close>

theorem create_property_then_get:
  "get_property (snd (create_property db n s)) (id_p (fst (create_property db n s)))
     = Inr (fst (create_property db n s))
   \<and> number (fst (create_property db n s)) = n
   \<and> notes_p (fst (create_property db n s)) = s"
  by (simp add: create_property_def get_property_def Let_def find_append find_fresh_id)

section \<open>Events: listing, fetching and deleting\<close>

lemma map_copy_Log:
  "map (\<lambda>log. \<lparr>propertyId = propertyId log, id_l = id_l log, timestamp = timestamp log,
                 description = description log\<rparr>) xs = xs"
  by (induction xs) simp_all

lemma passes_fun:
  "passes NoBound = (\<lambda>l. True)" "passes (Bound x) = (\<lambda>l. x \<le> timestamp l)"
  by (rule ext, simp)+

lemma bound_step:
  "(case d of
      None \<Rightarrow> Inr q
    | Some s \<Rightarrow>
        if s = [] then Inr q
        else (case validateDateTime prs s t of
                Some x \<Rightarrow> Inr (filter (\<lambda>l. x \<le> timestamp l) q)
              | None \<Rightarrow> Inl e))
   = (if range_bound prs d t = Rejected then Inl e
      else Inr (filter (passes (range_bound prs d t)) q))"
  by (simp add: range_bound_def passes_fun split: option.split)

lemma range_bound_NoBound: "range_bound prs d t = NoBound \<longleftrightarrow> (d = None \<or> d = Some [])"
  by (simp add: range_bound_def split: option.split)

lemma get_property_events_eq:
  "get_property_events prs db pid sd ed =
     (if range_bound prs sd time_min = Rejected then
        Inl (BadRequest ''Unable to parse start_date. Use YYYY-MM-DD or YYYY-MM-DDTHH:MM:SS'')
      else if range_bound prs ed time_max = Rejected then
        Inl (BadRequest ''Unable to parse end_date. Use YYYY-MM-DD or YYYY-MM-DDTHH:MM:SS'')
      else
        (let r = filter (\<lambda>l. propertyId l = pid \<and> passes (range_bound prs sd time_min) l
                              \<and> passes (range_bound prs ed time_max) l) (logs db)
         in if r = [] then
              Inl (NotFound
                (if range_bound prs sd time_min = NoBound \<and> range_bound prs ed time_max = NoBound
                 then ''No events found for this property.''
                 else ''No events found for this property in the given range.''))
            else Inr r))"
proof -
  have f: "filter (passes be) (filter (passes bs) (filter (\<lambda>l. propertyId l = pid) xs))
         = filter (\<lambda>l. propertyId l = pid \<and> passes bs l \<and> passes be l) xs" for bs be xs
    by (simp add: conj_commute conj_left_commute)
  show ?thesis
    unfolding get_property_events_def Let_def bound_step
    by (auto simp: f map_copy_Log range_bound_NoBound)
qed

lemmas prs_defs = fromisoformat_def parse_date_def parse_time_def parse_clock_def microseconds_def
  index_of_def valid_offset_def digits_def digit_def days_in_month_def is_leap_def Let_def

lemmas time_defs = validateDateTime_def time_of_def combine_def time_min_def time_max_def Let_def

lemmas sample_defs = db_empty_def db_one_def db_two_def unit_101_def unit_102_def
  inspection_def repair_def viewing_def sample_now_def

lemma fromisoformat_samples:
  "fromisoformat ''2024-01-01'' = Some ((2024, 1, 1), (0, 0, 0, 0))"
  "fromisoformat ''2024-01-01T00:00:00'' = Some ((2024, 1, 1), (0, 0, 0, 0))"
  "fromisoformat ''2024-01-01T23:59:59.999999'' = Some ((2024, 1, 1), (23, 59, 59, 999999))"
  "fromisoformat ''2024-02-01'' = Some ((2024, 2, 1), (0, 0, 0, 0))"
  "fromisoformat ''2024-03-01'' = Some ((2024, 3, 1), (0, 0, 0, 0))"
  "fromisoformat ''2024-04-01'' = Some ((2024, 4, 1), (0, 0, 0, 0))"
  "fromisoformat ''not-a-date'' = None"
  "fromisoformat [] = None"
  by (simp_all add: prs_defs time_min_def)

lemma fromisoformat_other_forms:
  "fromisoformat ''2024-03-09T14:05'' = Some ((2024, 3, 9), (14, 5, 0, 0))"
  "fromisoformat ''20240309'' = Some ((2024, 3, 9), (0, 0, 0, 0))"
  "fromisoformat ''2024-03-09T14:05:00+05:00'' = Some ((2024, 3, 9), (14, 5, 0, 0))"
  "fromisoformat ''2024-03-09 14:05:00.5Z'' = Some ((2024, 3, 9), (14, 5, 0, 500000))"
  "fromisoformat ''2024-02-30'' = None"
  "fromisoformat ''2024-03-09T25:00'' = None"
  by (simp_all add: prs_defs time_min_def)

text \<open>
  C1. An event created with an explicit timestamp is to be listed by every range that
  holds the timestamp, and by no range that lies before or after it. The handler applies
  the end of the range with \<open>>=\<close>: in the scenario of the specification (property 101,
  an inspection on 2024-03-01) the range 2024-02-01 to 2024-04-01 holds the timestamp and
  the listing fails with 404, and the range 2024-01-01 to 2024-02-01 lies before it and
  the listing returns the event.
\<close>

theorem range_listing_scenario:
  "create_property db_empty ''101'' ''corner unit''
     = (unit_101, \<lparr>properties = [unit_101], logs = []\<rparr>)
   \<and> create_event fromisoformat sample_now \<lparr>properties = [unit_101], logs = []\<rparr> 1
        ''inspection'' (Some ''2024-03-01'')
     = Inr (inspection, db_one)
   \<and> get_property_events fromisoformat db_one 1 (Some ''2024-02-01'') (Some ''2024-04-01'')
     = Inl (NotFound ''No events found for this property in the given range.'')
   \<and> get_property_events fromisoformat db_one 1 (Some ''2024-01-01'') (Some ''2024-02-01'')
     = Inr [inspection]"
  by (simp add: create_property_def create_event_def get_property_events_def next_rowid_def
        fromisoformat_samples time_defs sample_defs)

text \<open>
  C2. \<open>get_event\<close> is to return the event that has both the property id and the event id
  of the request, and 404 when there is none. The filter that reaches the store holds the
  property id only: the request for event 2 of property 1 returns event 1, the request
  for event 1 of property 2 returns event 3, and the request for an event 99 that does
  not exist returns event 1. \<open>get_log\<close> of \<open>src/server.py\<close> does the same.
\<close>

theorem get_event_ignores_event_id:
  "get_event db_two 1 2 = Inr inspection \<and> id_l inspection = 1
   \<and> get_event db_two 2 1 = Inr viewing \<and> id_l viewing = 3
   \<and> get_event db_two 1 99 = Inr inspection
   \<and> get_log db_two 1 2 = Inr inspection"
  by (simp add: get_event_def get_log_def sample_defs)

text \<open>
  C3. \<open>delete_event\<close> is to remove the event named by both ids and leave every property
  as it is. The handler queries \<open>Property\<close> and deletes what it found: with one property
  and its one event stored, the request to delete that event removes the property and
  keeps the event, and so does the request to delete an event 99 that does not exist
  (which is to fail with 404). \<open>delete_event\<close> of \<open>src/server.py\<close> does the same.
\<close>

theorem delete_event_deletes_property:
  "delete_event db_one 1 1 = Inr (''Event deleted'', \<lparr>properties = [], logs = [inspection]\<rparr>)
   \<and> delete_event db_one 1 99 = Inr (''Event deleted'', \<lparr>properties = [], logs = [inspection]\<rparr>)
   \<and> delete_event_top db_one 1 1
       = Inr (''Event deleted'', \<lparr>properties = [], logs = [inspection]\<rparr>)"
  by (simp add: delete_event_def delete_event_top_def delete_Property_def sample_defs)

text \<open>
  C4. After \<open>delete_property\<close> has succeeded, the state it returns holds neither the
  property nor any event of it: fetching the property, fetching any event of it and
  listing its events all fail with 404 (a listing whose range is rejected fails with 400
  before the store is read). Property and events are gone in the one state the handler
  commits.
\<close>

theorem delete_property_cascade:
  assumes "delete_property db pid = Inr (m, db')"
  shows "get_property db' pid = Inl (NotFound ''Property not found.'')
       \<and> (\<forall>eid. get_event db' pid eid = Inl (NotFound ''Log not found.''))
       \<and> get_property_events prs db' pid None None
           = Inl (NotFound ''No events found for this property.'')
       \<and> (\<forall>sd ed. \<exists>e. get_property_events prs db' pid sd ed = Inl e
              \<and> (status_code e = 404 \<or> range_bound prs sd time_min = Rejected
                   \<or> range_bound prs ed time_max = Rejected))
       \<and> get_events_for_property db' pid = Inl (NotFound ''No events found for this property.'')
       \<and> filter (\<lambda>l. propertyId l = pid) (logs db') = []
       \<and> filter (\<lambda>p. id_p p = pid) (properties db') = []"
proof -
  have nologs: "filter (\<lambda>l. propertyId l = pid) (logs db') = []"
    using assms by (rule delete_property_no_logs)
  have noprop: "filter (\<lambda>p. id_p p = pid) (properties db') = []"
    by (simp add: delete_property_Inr(1)[OF assms])
  have "find (\<lambda>p. id_p p = pid) (properties db') = None"
    using noprop by (simp add: find_None_iff filter_empty_conv)
  then have g: "get_property db' pid = Inl (NotFound ''Property not found.'')"
    by (simp add: get_property_def)
  have "find (\<lambda>l. propertyId l = pid) (logs db') = None"
    using nologs by (simp add: find_None_iff filter_empty_conv)
  then have e: "\<forall>eid. get_event db' pid eid = Inl (NotFound ''Log not found.'')"
    by (simp add: get_event_def)
  have r: "filter (\<lambda>l. propertyId l = pid \<and> P l) (logs db') = []" for P
    using nologs by (simp add: filter_empty_conv)
  have l0: "get_property_events prs db' pid None None
              = Inl (NotFound ''No events found for this property.'')"
    by (simp add: get_property_events_eq nologs range_bound_def Let_def)
  have l1: "\<forall>sd ed. \<exists>e. get_property_events prs db' pid sd ed = Inl e
              \<and> (status_code e = 404 \<or> range_bound prs sd time_min = Rejected
                   \<or> range_bound prs ed time_max = Rejected)"
    by (simp add: get_property_events_eq r Let_def)
  have l2: "get_events_for_property db' pid = Inl (NotFound ''No events found for this property.'')"
    by (simp add: get_events_for_property_def nologs)
  from g e l0 l1 l2 nologs noprop show ?thesis by blast
qed

theorem delete_property_cascade_witness:
  "delete_property db_two 1
     = Inr (''Property and associated logs deleted.'', \<lparr>properties = [unit_102], logs = [viewing]\<rparr>)
   \<and> get_property \<lparr>properties = [unit_102], logs = [viewing]\<rparr> 1
       = Inl (NotFound ''Property not found.'')
   \<and> get_event \<lparr>properties = [unit_102], logs = [viewing]\<rparr> 1 2
       = Inl (NotFound ''Log not found.'')
   \<and> get_property_events fromisoformat \<lparr>properties = [unit_102], logs = [viewing]\<rparr> 1 None None
       = Inl (NotFound ''No events found for this property.'')"
proof -
  have h: "delete_property db_two 1
     = Inr (''Property and associated logs deleted.'', \<lparr>properties = [unit_102], logs = [viewing]\<rparr>)"
    by (simp add: delete_property_def delete_Property_def delete_Log_def sample_defs Let_def)
  show ?thesis
    using h delete_property_cascade [OF h, of fromisoformat] by simp
qed

section \<open>Date input, listing outcomes and event creation\<close>

lemma validateDateTime_midnight:
  "prs s = Some d \<Longrightarrow> time_of d = time_min \<Longrightarrow> validateDateTime prs s t = Some (fst d, t)"
  by (simp add: validateDateTime_def combine_def Let_def)

lemma validateDateTime_other:
  "prs s = Some d \<Longrightarrow> time_of d \<noteq> time_min \<Longrightarrow> validateDateTime prs s t = Some d"
  by (simp add: validateDateTime_def Let_def)

lemma validateDateTime_None: "prs s = None \<Longrightarrow> validateDateTime prs s t = None"
  by (simp add: validateDateTime_def)

lemma validateDateTime_None_iff: "validateDateTime prs s t = None \<longleftrightarrow> prs s = None"
  by (simp add: validateDateTime_def Let_def split: option.split)

lemma range_bound_Rejected:
  "range_bound prs d t = Rejected \<longleftrightarrow> (\<exists>x. d = Some x \<and> x \<noteq> [] \<and> prs x = None)"
  by (cases d)
     (auto simp: range_bound_def validateDateTime_None_iff [where t = t, symmetric]
        split: option.splits)

text \<open>
  C5. For every state, property and other end of the range, listing with the start
  \<open>2024-01-01\<close> gives the result of listing with the start \<open>2024-01-01T00:00:00\<close>, and
  listing with the end \<open>2024-01-01\<close> gives the result of listing with the end
  \<open>2024-01-01T23:59:59.999999\<close>. The hypotheses say what the library reads in the three
  strings.
\<close>

theorem date_only_bounds:
  assumes "prs ''2024-01-01'' = Some ((2024, 1, 1), (0, 0, 0, 0))"
      and "prs ''2024-01-01T00:00:00'' = Some ((2024, 1, 1), (0, 0, 0, 0))"
      and "prs ''2024-01-01T23:59:59.999999'' = Some ((2024, 1, 1), (23, 59, 59, 999999))"
  shows "get_property_events prs db pid (Some ''2024-01-01'') ed
           = get_property_events prs db pid (Some ''2024-01-01T00:00:00'') ed
       \<and> get_property_events prs db pid sd (Some ''2024-01-01'')
           = get_property_events prs db pid sd (Some ''2024-01-01T23:59:59.999999'')"
proof -
  have s: "range_bound prs (Some ''2024-01-01'') time_min
             = range_bound prs (Some ''2024-01-01T00:00:00'') time_min"
    using assms(1,2) by (simp add: range_bound_def validateDateTime_def Let_def)
  have "validateDateTime prs ''2024-01-01'' time_max = Some ((2024, 1, 1), time_max)"
    using assms(1) by (simp add: validateDateTime_midnight time_of_def time_min_def)
  moreover have "validateDateTime prs ''2024-01-01T23:59:59.999999'' time_max
                   = Some ((2024, 1, 1), time_max)"
    using assms(3) by (simp add: validateDateTime_other time_of_def time_min_def time_max_def)
  ultimately have e: "range_bound prs (Some ''2024-01-01'') time_max
             = range_bound prs (Some ''2024-01-01T23:59:59.999999'') time_max"
    by (simp add: range_bound_def)
  show ?thesis
    by (simp only: get_property_events_eq s e)
qed

theorem date_only_bounds_witness:
  "fromisoformat ''2024-01-01'' = Some ((2024, 1, 1), (0, 0, 0, 0))
   \<and> fromisoformat ''2024-01-01T00:00:00'' = Some ((2024, 1, 1), (0, 0, 0, 0))
   \<and> fromisoformat ''2024-01-01T23:59:59.999999'' = Some ((2024, 1, 1), (23, 59, 59, 999999))
   \<and> get_property_events fromisoformat db_two 1 (Some ''2024-01-01'') None
       = get_property_events fromisoformat db_two 1 (Some ''2024-01-01T00:00:00'') None
   \<and> get_property_events fromisoformat db_two 2 None (Some ''2024-01-01'')
       = get_property_events fromisoformat db_two 2 None (Some ''2024-01-01T23:59:59.999999'')
   \<and> get_property_events fromisoformat db_two 1 (Some ''2024-01-01'') None
       = Inr [inspection, repair]
   \<and> get_property_events fromisoformat db_two 2 None (Some ''2024-01-01'')
       = Inl (NotFound ''No events found for this property in the given range.'')"
proof -
  note h = fromisoformat_samples(1) fromisoformat_samples(2) fromisoformat_samples(3)
  have v1: "get_property_events fromisoformat db_two 1 (Some ''2024-01-01'') None
       = Inr [inspection, repair]"
    by (simp add: get_property_events_def fromisoformat_samples time_defs sample_defs)
  have v2: "get_property_events fromisoformat db_two 2 None (Some ''2024-01-01'')
       = Inl (NotFound ''No events found for this property in the given range.'')"
    by (simp add: get_property_events_def fromisoformat_samples time_defs sample_defs)
  show ?thesis
    using date_only_bounds [where prs = fromisoformat and db = db_two and pid = 1
              and sd = None and ed = None, OF h]
          date_only_bounds [where prs = fromisoformat and db = db_two and pid = 2
              and sd = None and ed = None, OF h]
          h v1 v2
    by simp
qed

text \<open>
  C6, as stated, fails in two ways. The empty string has neither of the two forms, and the
  handlers take it as a parameter that was not given: \<open>create_event\<close> stores the event with
  the current time, and the listing returns the events unfiltered. And the handlers test
  what the library parses, not the two forms: \<open>2024-03-09T14:05\<close> has neither form, the
  library reads it, and \<open>create_event\<close> stores the event at 14:05 while the listing applies
  it as a bound.
\<close>

theorem unparsable_claim_counterexample:
  "\<not> date_only_form [] \<and> \<not> full_datetime_form []
   \<and> create_event fromisoformat sample_now db_one 1 ''repair'' (Some [])
       = Inr (\<lparr>propertyId = 1, id_l = 2, timestamp = sample_now, description = ''repair''\<rparr>,
              \<lparr>properties = [unit_101],
                logs = [inspection,
                        \<lparr>propertyId = 1, id_l = 2, timestamp = sample_now,
                           description = ''repair''\<rparr>]\<rparr>)
   \<and> get_property_events fromisoformat db_one 1 (Some []) None = Inr [inspection]
   \<and> get_property_events fromisoformat db_one 1 None (Some []) = Inr [inspection]
   \<and> \<not> date_only_form ''2024-03-09T14:05'' \<and> \<not> full_datetime_form ''2024-03-09T14:05''
   \<and> create_event fromisoformat sample_now db_one 1 ''repair'' (Some ''2024-03-09T14:05'')
       = Inr (repair, \<lparr>properties = [unit_101], logs = [inspection, repair]\<rparr>)
   \<and> get_property_events fromisoformat db_one 1 (Some ''2024-03-09T14:05'') None
       = Inl (NotFound ''No events found for this property in the given range.'')"
  by (simp add: create_event_def get_property_events_def next_rowid_def fromisoformat_samples
        fromisoformat_other_forms time_defs sample_defs date_only_form_def full_datetime_form_def)

text \<open>
  C6, amended. A non-empty string that the library does not parse, given as the timestamp
  of \<open>create_event\<close> or as the start or the end of a listing, fails with 400 and a message
  that names \<open>YYYY-MM-DD\<close> and \<open>YYYY-MM-DDTHH:MM:SS\<close>; the result holds no event and no
  new state. These are the only failures of \<open>create_event\<close> and the only 400 of a listing:
  a request fails so exactly when one of its date strings is non-empty and the library
  rejects it, whatever the form of the string. An empty string does what an absent
  parameter does.
\<close>

theorem unparsable_is_bad_request:
  assumes "prs s = None" and "s \<noteq> []"
  shows "create_event prs now db pid desc (Some s)
           = Inl (BadRequest ''Unable to parse timestamp. Use YYYY-MM-DD or YYYY-MM-DDTHH:MM:SS'')
       \<and> get_property_events prs db pid (Some s) ed
           = Inl (BadRequest ''Unable to parse start_date. Use YYYY-MM-DD or YYYY-MM-DDTHH:MM:SS'')
       \<and> (get_property_events prs db pid sd (Some s)
             = Inl (BadRequest ''Unable to parse end_date. Use YYYY-MM-DD or YYYY-MM-DDTHH:MM:SS'')
           \<or> get_property_events prs db pid sd (Some s)
             = Inl (BadRequest ''Unable to parse start_date. Use YYYY-MM-DD or YYYY-MM-DDTHH:MM:SS''))
       \<and> ((\<exists>e. create_event prs now db pid desc ts = Inl e)
            \<longleftrightarrow> (\<exists>x. ts = Some x \<and> x \<noteq> [] \<and> prs x = None))
       \<and> ((\<exists>m. get_property_events prs db pid sd ed = Inl (BadRequest m))
            \<longleftrightarrow> (\<exists>x. (sd = Some x \<or> ed = Some x) \<and> x \<noteq> [] \<and> prs x = None))
       \<and> create_event prs now db pid desc (Some []) = create_event prs now db pid desc None
       \<and> get_property_events prs db pid (Some []) ed = get_property_events prs db pid None ed
       \<and> get_property_events prs db pid sd (Some []) = get_property_events prs db pid sd None"
proof -
  have v: "validateDateTime prs s t = None" for t
    using assms(1) by (rule validateDateTime_None)
  have c: "create_event prs now db pid desc (Some s)
           = Inl (BadRequest ''Unable to parse timestamp. Use YYYY-MM-DD or YYYY-MM-DDTHH:MM:SS'')"
    using assms(2) by (simp add: create_event_def v)
  have rb: "range_bound prs (Some s) t = Rejected" for t
    using assms(2) by (simp add: range_bound_def v)
  have st: "get_property_events prs db pid (Some s) ed
           = Inl (BadRequest ''Unable to parse start_date. Use YYYY-MM-DD or YYYY-MM-DDTHH:MM:SS'')"
    by (simp add: get_property_events_eq rb)
  have en: "get_property_events prs db pid sd (Some s)
             = Inl (BadRequest ''Unable to parse end_date. Use YYYY-MM-DD or YYYY-MM-DDTHH:MM:SS'')
           \<or> get_property_events prs db pid sd (Some s)
             = Inl (BadRequest ''Unable to parse start_date. Use YYYY-MM-DD or YYYY-MM-DDTHH:MM:SS'')"
    by (simp add: get_property_events_eq rb)
  have ce: "(\<exists>e. create_event prs now db pid desc ts = Inl e)
            \<longleftrightarrow> (\<exists>x. ts = Some x \<and> x \<noteq> [] \<and> prs x = None)"
    by (cases ts)
       (auto simp: create_event_def validateDateTime_None_iff [where t = time_min, symmetric]
          Let_def split: option.splits)
  have le: "(\<exists>m. get_property_events prs db pid sd ed = Inl (BadRequest m))
            \<longleftrightarrow> (\<exists>x. (sd = Some x \<or> ed = Some x) \<and> x \<noteq> [] \<and> prs x = None)"
    by (auto simp: get_property_events_eq range_bound_Rejected Let_def)
  have e1: "create_event prs now db pid desc (Some []) = create_event prs now db pid desc None"
    by (simp add: create_event_def)
  have nb: "range_bound prs (Some []) t = range_bound prs None t" for t
    by (simp add: range_bound_def)
  have e2: "get_property_events prs db pid (Some []) ed = get_property_events prs db pid None ed"
    by (simp only: get_property_events_eq nb)
  have e3: "get_property_events prs db pid sd (Some []) = get_property_events prs db pid sd None"
    by (simp only: get_property_events_eq nb)
  from c st en ce le e1 e2 e3 show ?thesis by blast
qed

theorem unparsable_is_bad_request_witness:
  "fromisoformat ''not-a-date'' = None \<and> ''not-a-date'' \<noteq> []
   \<and> create_event fromisoformat sample_now db_one 1 ''repair'' (Some ''not-a-date'')
       = Inl (BadRequest ''Unable to parse timestamp. Use YYYY-MM-DD or YYYY-MM-DDTHH:MM:SS'')
   \<and> get_property_events fromisoformat db_one 1 (Some ''not-a-date'') None
       = Inl (BadRequest ''Unable to parse start_date. Use YYYY-MM-DD or YYYY-MM-DDTHH:MM:SS'')
   \<and> get_property_events fromisoformat db_one 1 None (Some ''not-a-date'')
       = Inl (BadRequest ''Unable to parse end_date. Use YYYY-MM-DD or YYYY-MM-DDTHH:MM:SS'')"
proof -
  have h1: "fromisoformat ''not-a-date'' = None" by (rule fromisoformat_samples(7))
  have h2: "''not-a-date'' \<noteq> []" by simp
  have e: "get_property_events fromisoformat db_one 1 None (Some ''not-a-date'')
       = Inl (BadRequest ''Unable to parse end_date. Use YYYY-MM-DD or YYYY-MM-DDTHH:MM:SS'')"
    by (simp add: get_property_events_def validateDateTime_def h1)
  show ?thesis
    using unparsable_is_bad_request [where prs = fromisoformat and s = "''not-a-date''"
              and now = sample_now and db = db_one and pid = 1 and desc = "''repair''"
              and sd = None and ed = None, OF h1 h2] h1 e
    by simp
qed

text \<open>
  C7. When neither end of the range is rejected, a listing fails with 404 exactly when no
  event of the property passes the bounds, and returns those events otherwise. The message
  is \<open>No events found for this property.\<close> when no bound was given and
  \<open>No events found for this property in the given range.\<close> when one was.
  \<open>get_events_for_property\<close> of \<open>src/server.py\<close>, which has no range, fails exactly when
  the property has no event.
\<close>

theorem listing_not_found_iff_empty:
  assumes "range_bound prs sd time_min \<noteq> Rejected" and "range_bound prs ed time_max \<noteq> Rejected"
  shows "get_property_events prs db pid sd ed =
           (let r = filter (\<lambda>l. propertyId l = pid \<and> passes (range_bound prs sd time_min) l
                                 \<and> passes (range_bound prs ed time_max) l) (logs db)
            in if r = [] then
                 Inl (NotFound
                   (if range_bound prs sd time_min = NoBound \<and> range_bound prs ed time_max = NoBound
                    then ''No events found for this property.''
                    else ''No events found for this property in the given range.''))
               else Inr r)
       \<and> ((\<exists>m. get_property_events prs db pid sd ed = Inl (NotFound m))
            \<longleftrightarrow> filter (\<lambda>l. propertyId l = pid \<and> passes (range_bound prs sd time_min) l
                                 \<and> passes (range_bound prs ed time_max) l) (logs db) = [])
       \<and> get_events_for_property db pid =
           (let r = filter (\<lambda>l. propertyId l = pid) (logs db)
            in if r = [] then Inl (NotFound ''No events found for this property.'') else Inr r)"
proof -
  have a: "get_property_events prs db pid sd ed =
           (let r = filter (\<lambda>l. propertyId l = pid \<and> passes (range_bound prs sd time_min) l
                                 \<and> passes (range_bound prs ed time_max) l) (logs db)
            in if r = [] then
                 Inl (NotFound
                   (if range_bound prs sd time_min = NoBound \<and> range_bound prs ed time_max = NoBound
                    then ''No events found for this property.''
                    else ''No events found for this property in the given range.''))
               else Inr r)"
    using assms by (simp add: get_property_events_eq)
  have b: "(\<exists>m. get_property_events prs db pid sd ed = Inl (NotFound m))
            \<longleftrightarrow> filter (\<lambda>l. propertyId l = pid \<and> passes (range_bound prs sd time_min) l
                                 \<and> passes (range_bound prs ed time_max) l) (logs db) = []"
    by (simp add: a Let_def)
  have c: "get_events_for_property db pid =
           (let r = filter (\<lambda>l. propertyId l = pid) (logs db)
            in if r = [] then Inl (NotFound ''No events found for this property.'') else Inr r)"
    by (simp add: get_events_for_property_def map_copy_Log Let_def)
  from a b c show ?thesis by blast
qed

theorem listing_not_found_iff_empty_witness:
  "range_bound fromisoformat (Some ''2024-03-01'') time_min \<noteq> Rejected
   \<and> range_bound fromisoformat None time_max \<noteq> Rejected
   \<and> get_property_events fromisoformat db_two 1 (Some ''2024-03-01'') None
       = Inr [inspection, repair]
   \<and> get_property_events fromisoformat db_two 2 (Some ''2024-03-01'') None
       = Inl (NotFound ''No events found for this property in the given range.'')
   \<and> get_property_events fromisoformat db_two 3 None None
       = Inl (NotFound ''No events found for this property.'')"
proof -
  have b1: "range_bound fromisoformat (Some ''2024-03-01'') time_min = Bound ((2024, 3, 1), (0, 0, 0, 0))"
    by (simp add: range_bound_def fromisoformat_samples time_defs)
  have b2: "range_bound fromisoformat None t = NoBound" for t
    by (simp add: range_bound_def)
  have h1: "range_bound fromisoformat (Some ''2024-03-01'') time_min \<noteq> Rejected"
    by (simp add: b1)
  have h2: "range_bound fromisoformat None t \<noteq> Rejected" for t
    by (simp add: b2)
  show ?thesis
    using listing_not_found_iff_empty [where prs = fromisoformat and db = db_two and pid = 1, OF h1 h2]
          listing_not_found_iff_empty [where prs = fromisoformat and db = db_two and pid = 2, OF h1 h2]
          listing_not_found_iff_empty [where prs = fromisoformat and db = db_two and pid = 3
             and sd = None and ed = None, OF h2 h2]
          h1 h2
    by (simp add: b1 b2 sample_defs Let_def)
qed

text \<open>
  C8. \<open>create_event\<close> never fails with 404, whatever the property id: with no timestamp,
  an empty one or one that validates, it appends the event under the next row id and
  returns it, and the table of properties is neither read nor changed.
  \<open>create_event\<close> of \<open>src/server.py\<close> always does.
\<close>

theorem create_event_no_property_check:
  assumes "validateDateTime prs s time_min = Some t" and "s \<noteq> []"
  shows "(let ev = (\<lambda>x. \<lparr>propertyId = pid, id_l = next_rowid (map id_l (logs db)),
                          timestamp = x, description = desc\<rparr>)
          in create_event prs now db pid desc None = Inr (ev now, db\<lparr>logs := logs db @ [ev now]\<rparr>)
           \<and> create_event prs now db pid desc (Some []) = Inr (ev now, db\<lparr>logs := logs db @ [ev now]\<rparr>)
           \<and> create_event prs now db pid desc (Some s) = Inr (ev t, db\<lparr>logs := logs db @ [ev t]\<rparr>)
           \<and> create_event_top now db pid desc = (ev now, db\<lparr>logs := logs db @ [ev now]\<rparr>))
       \<and> (\<forall>ts m. create_event prs now db pid desc ts \<noteq> Inl (NotFound m))"
proof -
  have n: "create_event prs now db pid desc ts \<noteq> Inl (NotFound m)" for ts m
    by (simp add: create_event_def Let_def split: option.split)
  show ?thesis
    using assms n by (simp add: create_event_def create_event_top_def Let_def)
qed

theorem create_event_no_property_check_witness:
  "validateDateTime fromisoformat ''2024-03-01'' time_min = Some ((2024, 3, 1), (0, 0, 0, 0))
   \<and> ''2024-03-01'' \<noteq> []
   \<and> get_property db_one 42 = Inl (NotFound ''Property not found.'')
   \<and> create_event fromisoformat sample_now db_one 42 ''visit'' (Some ''2024-03-01'')
       = Inr (\<lparr>propertyId = 42, id_l = 2, timestamp = ((2024, 3, 1), (0, 0, 0, 0)),
                description = ''visit''\<rparr>,
              \<lparr>properties = [unit_101],
                logs = [inspection,
                        \<lparr>propertyId = 42, id_l = 2, timestamp = ((2024, 3, 1), (0, 0, 0, 0)),
                           description = ''visit''\<rparr>]\<rparr>)
   \<and> create_event fromisoformat sample_now db_one 42 ''visit'' None
       = Inr (\<lparr>propertyId = 42, id_l = 2, timestamp = sample_now, description = ''visit''\<rparr>,
              \<lparr>properties = [unit_101],
                logs = [inspection,
                        \<lparr>propertyId = 42, id_l = 2, timestamp = sample_now,
                           description = ''visit''\<rparr>]\<rparr>)"
proof -
  have h1: "validateDateTime fromisoformat ''2024-03-01'' time_min = Some ((2024, 3, 1), (0, 0, 0, 0))"
    by (simp add: fromisoformat_samples time_defs)
  have h2: "''2024-03-01'' \<noteq> []" by simp
  have g: "get_property db_one 42 = Inl (NotFound ''Property not found.'')"
    by (simp add: get_property_def db_one_def unit_101_def)
  have r: "next_rowid (map id_l (logs db_one)) = 2"
    by (simp add: next_rowid_def db_one_def inspection_def)
  show ?thesis
    using create_event_no_property_check [where prs = fromisoformat and s = "''2024-03-01''"
            and db = db_one and pid = 42 and desc = "''visit''" and now = sample_now, OF h1 h2]
          h1 g
    by (simp add: r Let_def) (simp add: db_one_def)
qed

text \<open>
  C10. A string whose time of day the library reads as 00:00:00 validates to its date with
  the default time of the caller, as a date without a time does: an end of range at an
  explicit midnight filters as 23:59:59.999999 of that day, not as midnight.
\<close>

theorem midnight_replaced_by_default:
  assumes "prs s = Some d" and "time_of d = time_min" and "s \<noteq> []"
      and "prs s' = Some (fst d, time_max)" and "s' \<noteq> []"
      and "prs s0 = Some d"
  shows "validateDateTime prs s t = Some (fst d, t)
       \<and> validateDateTime prs s t = validateDateTime prs s0 t
       \<and> validateDateTime prs s time_max \<noteq> Some d
       \<and> get_property_events prs db pid sd (Some s) = get_property_events prs db pid sd (Some s')"
proof -
  have v: "validateDateTime prs s t = Some (fst d, t)" for t
    using assms(1,2) by (rule validateDateTime_midnight)
  have v0: "validateDateTime prs s0 t = Some (fst d, t)"
    using assms(6,2) by (rule validateDateTime_midnight)
  have ne: "time_max \<noteq> time_min" by (simp add: time_max_def time_min_def)
  have nd: "validateDateTime prs s time_max \<noteq> Some d"
  proof
    assume "validateDateTime prs s time_max = Some d"
    then have "d = (fst d, time_max)" by (simp add: v)
    then have "snd d = time_max" by (metis snd_conv)
    with assms(2) ne show False by (simp add: time_of_def)
  qed
  have "time_of (fst d, time_max) \<noteq> time_min" using ne by (simp add: time_of_def)
  with assms(4) have v': "validateDateTime prs s' time_max = Some (fst d, time_max)"
    by (rule validateDateTime_other)
  have rb: "range_bound prs (Some s) time_max = range_bound prs (Some s') time_max"
    using assms(3,5) by (simp add: range_bound_def v v')
  have l: "get_property_events prs db pid sd (Some s) = get_property_events prs db pid sd (Some s')"
    by (simp only: get_property_events_eq rb)
  from v v0 nd l show ?thesis by simp
qed

theorem midnight_replaced_by_default_witness:
  "fromisoformat ''2024-01-01T00:00:00'' = Some ((2024, 1, 1), (0, 0, 0, 0))
   \<and> time_of ((2024, 1, 1), (0, 0, 0, 0)) = time_min
   \<and> fromisoformat ''2024-01-01T23:59:59.999999'' = Some ((2024, 1, 1), time_max)
   \<and> fromisoformat ''2024-01-01'' = Some ((2024, 1, 1), (0, 0, 0, 0))
   \<and> validateDateTime fromisoformat ''2024-01-01T00:00:00'' time_max
       = Some ((2024, 1, 1), (23, 59, 59, 999999))
   \<and> validateDateTime fromisoformat ''2024-01-01T00:00:00'' time_max
       = validateDateTime fromisoformat ''2024-01-01'' time_max
   \<and> get_property_events fromisoformat db_two 2 None (Some ''2024-01-01T00:00:00'')
       = get_property_events fromisoformat db_two 2 None (Some ''2024-01-01T23:59:59.999999'')
   \<and> get_property_events fromisoformat db_two 2 None (Some ''2024-01-01T00:00:00'')
       = Inl (NotFound ''No events found for this property in the given range.'')"
proof -
  have h1: "fromisoformat ''2024-01-01T00:00:00'' = Some ((2024, 1, 1), (0, 0, 0, 0))"
    by (rule fromisoformat_samples(2))
  have h2: "time_of ((2024, 1, 1), (0, 0, 0, 0)) = time_min"
    by (simp add: time_of_def time_min_def)
  have h3: "''2024-01-01T00:00:00'' \<noteq> []" by simp
  have h4: "fromisoformat ''2024-01-01T23:59:59.999999''
              = Some (fst (((2024, 1, 1), (0, 0, 0, 0)) :: datetime), time_max)"
    by (simp add: fromisoformat_samples time_max_def)
  have h5: "''2024-01-01T23:59:59.999999'' \<noteq> []" by simp
  have h6: "fromisoformat ''2024-01-01'' = Some ((2024, 1, 1), (0, 0, 0, 0))"
    by (rule fromisoformat_samples(1))
  have e: "get_property_events fromisoformat db_two 2 None (Some ''2024-01-01T23:59:59.999999'')
       = Inl (NotFound ''No events found for this property in the given range.'')"
    by (simp add: get_property_events_def fromisoformat_samples time_defs sample_defs)
  show ?thesis
    using midnight_replaced_by_default [where prs = fromisoformat and s = "''2024-01-01T00:00:00''"
            and d = "((2024, 1, 1), (0, 0, 0, 0))" and s' = "''2024-01-01T23:59:59.999999''"
            and s0 = "''2024-01-01''" and t = time_max and db = db_two and pid = 2 and sd = None,
            OF h1 h2 h3 h4 h5 h6]
          h1 h2 h4 h6 e
    by (auto simp: time_max_def)
qed

end
